theory Spec2Isabelle
  imports
    Complex_Main
    "HOL-Library.Sublist"
    "HOL-Library.Multiset"
    "HOL-Library.Char_ord"
    "HOL-Library.List_Lexorder"
begin

section \<open>Python strings\<close>

text \<open>
  A Python \<open>str\<close> is modelled as a \<open>string\<close> whose characters are code points below 256.
  \<open>w in s\<close> on strings is the library predicate \<^const>\<open>sublist\<close> (a contiguous
  occurrence; the empty string occurs everywhere, as in Python). String comparison is the
  lexicographic order on code points.
\<close>

definition lower_char :: "char \<Rightarrow> char" where
  "lower_char c =
     (let n = (of_char c :: nat)
      in if (65 \<le> n \<and> n \<le> 90) \<or> (192 \<le> n \<and> n \<le> 222 \<and> n \<noteq> 215)
         then char_of (n + 32) else c)"

definition lower :: "string \<Rightarrow> string" where
  "lower s = map lower_char s"

definition isspace :: "char \<Rightarrow> bool" where
  "isspace c =
     (let n = (of_char c :: nat)
      in (9 \<le> n \<and> n \<le> 13) \<or> (28 \<le> n \<and> n \<le> 32) \<or> n = 133 \<or> n = 160)"

text \<open>\<open>s.split()\<close>: the maximal runs of non-whitespace characters, in order.\<close>

fun split_ws :: "string \<Rightarrow> string \<Rightarrow> string list" where
  "split_ws w [] = (if w = [] then [] else [w])"
| "split_ws w (c # cs) =
     (if isspace c then (if w = [] then split_ws [] cs else w # split_ws [] cs)
      else split_ws (w @ [c]) cs)"

definition split :: "string \<Rightarrow> string list" where
  "split s = split_ws [] s"

text \<open>\<open>sep.join(xs)\<close>.\<close>

fun join :: "string \<Rightarrow> string list \<Rightarrow> string" where
  "join sep [] = []"
| "join sep [x] = x"
| "join sep (x # y # ys) = x @ sep @ join sep (y # ys)"

text \<open>
  \<open>s.split(sep)\<close> for a separator: the pieces between the non-overlapping occurrences of
  \<open>sep\<close>, found left to right. Python raises ValueError on an empty separator; every call
  in the program passes a non-empty literal, and for the empty one this function returns the
  text as one piece.
\<close>

function split_on_aux :: "string \<Rightarrow> string \<Rightarrow> string \<Rightarrow> string list" where
  "split_on_aux sep acc [] = [acc]"
| "split_on_aux sep acc (c # cs) =
     (if sep \<noteq> [] \<and> prefix sep (c # cs)
      then acc # split_on_aux sep [] (drop (length sep) (c # cs))
      else split_on_aux sep (acc @ [c]) cs)"
  by pat_completeness auto
termination
  by (relation "measure (\<lambda>(sep, acc, s). length s)") (auto simp: neq_Nil_conv)

definition split_on :: "string \<Rightarrow> string \<Rightarrow> string list" where
  "split_on sep s = split_on_aux sep [] s"

section \<open>Memory records\<close>

text \<open>
  A memory is a Python dict. Each key the program reads is a field; \<open>None\<close> in a field
  is what \<open>m.get(key)\<close> returns for a key that is absent or holds None. The keys
  \<open>id\<close>, \<open>text\<close> and \<open>context\<close> are the fields \<open>mem_id\<close>, \<open>mem_text\<close> and
  \<open>mem_context\<close>. Embedding components and relevance scores are Python floats, taken
  as real numbers.

  \<open>bad_keys\<close> lists the keys that are present with a value of the wrong type: None under
  \<open>text\<close>, \<open>emotion\<close>, \<open>location\<close> or \<open>people\<close> (for these the field is
  \<open>None\<close>, and \<open>m.get(key, default)\<close> is None, not the default), a number under
  \<open>embedding\<close> (the field is then not read). A statement that uses such a value as a
  string, a list or a vector raises. The memories the application itself builds have no
  such key.
\<close>

record memory =
  mem_id :: "int option"
  mem_text :: "string option"
  date :: "string option"
  emotion :: "string option"
  people :: "string list option"
  location :: "string option"
  topics :: "string list option"
  mem_context :: "string option"
  embedding :: "real list option"
  unlock_date :: "string option"
  relevance_score :: "real option"
  bad_keys :: "string list"

definition bad :: "string \<Rightarrow> memory \<Rightarrow> bool" where
  "bad key m = (key \<in> set (bad_keys m))"

text \<open>\<open>d.get(key, default)\<close> for a key that is absent or holds a value of its type.\<close>

definition get :: "'a \<Rightarrow> 'a option \<Rightarrow> 'a" where
  "get dflt v = (case v of None \<Rightarrow> dflt | Some x \<Rightarrow> x)"

text \<open>
  \<open>sorted(xs, key=key, reverse=True)\<close> and \<open>xs.sort(key=key, reverse=True)\<close>: a stable
  sort under the reversed comparison, which is the stable sort by the negated key.
\<close>

definition sorted_reverse :: "('a \<Rightarrow> real) \<Rightarrow> 'a list \<Rightarrow> 'a list" where
  "sorted_reverse key xs = sort_key (\<lambda>x. - key x) xs"

section \<open>Keyword scorer (memory_processor.py, keyword_search)\<close>

text \<open>
  What lines 203 to 229 compute on memories whose \<open>text\<close>, \<open>emotion\<close>,
  \<open>location\<close> and \<open>people\<close> are absent or hold values of their types. The
  exceptions they raise for a key of \<open>bad_keys\<close> are in \<open>keyword_search_call\<close>,
  with the recall orchestrator.
\<close>

definition keyword_score :: "string list \<Rightarrow> memory \<Rightarrow> int" where
  "keyword_score query_words m =
     (let memory_text = lower (get [] (mem_text m));
          memory_emotion = lower (get [] (emotion m));
          memory_location = lower (get [] (location m));
          memory_people = join '' '' (map lower (get [] (people m)));
          score = (\<Sum>word\<leftarrow>filter (\<lambda>word. sublist word memory_text) query_words. 1);
          score = score + (\<Sum>word\<leftarrow>filter (\<lambda>word. sublist word memory_emotion) query_words. 3);
          score = score + (\<Sum>word\<leftarrow>filter (\<lambda>word. sublist word memory_location) query_words. 2);
          score = score + (\<Sum>word\<leftarrow>filter (\<lambda>word. sublist word memory_people) query_words. 2)
      in score)"

definition keyword_search :: "string \<Rightarrow> memory list \<Rightarrow> memory list" where
  "keyword_search query_text memory_list =
     (let query_words = split (lower query_text);
          scored_memories =
            map (\<lambda>m. m\<lparr>relevance_score := Some (of_int (keyword_score query_words m))\<rparr>)
              memory_list
      in sorted_reverse (\<lambda>x. get 0 (relevance_score x)) scored_memories)"

text \<open>
  The score in the specification's words: a sum over the query tokens of the bonuses of the
  fields the token occurs in.
\<close>

definition spec_keyword_score :: "string \<Rightarrow> memory \<Rightarrow> int" where
  "spec_keyword_score query_text m =
     (\<Sum>tok\<leftarrow>split (lower query_text).
        (if sublist tok (lower (get [] (mem_text m))) then 1 else 0)
      + (if sublist tok (lower (get [] (emotion m))) then 3 else 0)
      + (if sublist tok (lower (get [] (location m))) then 2 else 0)
      + (if sublist tok (join '' '' (map lower (get [] (people m)))) then 2 else 0))"

section \<open>Fallback extraction (memory_processor.py, process_memory)\<close>






text \<open>
  The location loop of the fallback branch (lines 120 to 130). A keyword is tried when
  \<open>" kw "\<close> occurs in the text padded with one space on each side; the candidate is the
  second piece of the unpadded text split at \<open>" kw "\<close>, cut at the first full stop and then
  at the first comma. The loop stops at the first keyword whose candidate is shorter than 30.
\<close>

definition location_keywords :: "string list" where
  "location_keywords = [''at'', ''in'', ''near'', ''by'']"

fun location_loop :: "string \<Rightarrow> string list \<Rightarrow> string" where
  "location_loop txt [] = ''Unknown''"
| "location_loop txt (keyword # rest) =
     (if sublist ('' '' @ keyword @ '' '') ('' '' @ txt @ '' '')
      then (let parts = split_on ('' '' @ keyword @ '' '') txt
            in if length parts > 1
               then (let possible_location = hd (split_on '','' (hd (split_on ''.'' (parts ! 1))))
                     in if length possible_location < 30 then possible_location
                        else location_loop txt rest)
               else location_loop txt rest)
      else location_loop txt rest)"

definition fallback_location :: "string \<Rightarrow> string" where
  "fallback_location txt = location_loop txt location_keywords"

text \<open>
  The location rule in the specification's words: the keywords in priority order, the text
  after the first match up to the next full stop or comma, accepted when under 30 characters,
  \<open>Unknown\<close> otherwise.
\<close>

fun after_first :: "string \<Rightarrow> string \<Rightarrow> string option" where
  "after_first sep [] = (if sep = [] then Some [] else None)"
| "after_first sep (c # cs) =
     (if prefix sep (c # cs) then Some (drop (length sep) (c # cs)) else after_first sep cs)"

definition spec_location :: "string \<Rightarrow> string" where
  "spec_location txt =
     (case List.find (\<lambda>keyword. sublist ('' '' @ keyword @ '' '') txt) location_keywords of
        None \<Rightarrow> ''Unknown''
      | Some keyword \<Rightarrow>
          (case after_first ('' '' @ keyword @ '' '') txt of
             None \<Rightarrow> ''Unknown''
           | Some rest \<Rightarrow>
               (let candidate = takeWhile (\<lambda>c. c \<noteq> CHR ''.'' \<and> c \<noteq> CHR '','') rest
                in if length candidate < 30 then candidate else ''Unknown'')))"

section \<open>External services\<close>

text \<open>
  The OpenAI client, \<open>hashlib.md5\<close> and the float arithmetic of the interpreter are
  collaborators outside the program. Each call of the client either raises (\<open>Inl\<close>) or
  yields the decoded answer (\<open>Inr\<close>): a raised exception, a reply that is not valid JSON
  and a reply of the wrong shape all end in the same handler, so they are one error value
  here. A client that was never created (\<open>client = None\<close>) raises on every call.
  \<open>AttributeError\<close> and \<open>TypeError\<close> are the exceptions the program's own statements
  raise on a value of the wrong type.
\<close>

datatype error = ApiError | AttributeError | TypeError

text \<open>
  The decoded reply of the parameter-extraction call: the values under the keys
  \<open>emotions\<close>, \<open>people\<close> and \<open>locations\<close>, \<open>None\<close> for an absent key.
\<close>

record search_params =
  sp_emotions :: "string list option"
  sp_people :: "string list option"
  sp_locations :: "string list option"

text \<open>One entry of the JSON list sent to the final ranking call.\<close>

record candidate =
  c_id :: "int option"
  c_text :: "string option"
  c_date :: "string option"
  c_emotion :: "string option"
  c_people :: "string list option"
  c_location :: "string option"

text \<open>
  Float values are real numbers; what the interpreter computes from them is not fixed here.
  \<open>float_mul\<close>, \<open>float_div\<close> and \<open>float_sub\<close> are the rounded \<open>*\<close>, \<open>/\<close> and
  \<open>-\<close>, \<open>float_sum\<close> is the built-in \<open>sum\<close> on a sequence of floats. Nothing is
  assumed about them.
\<close>

record float_ops =
  float_mul :: "real \<Rightarrow> real \<Rightarrow> real"
  float_div :: "real \<Rightarrow> real \<Rightarrow> real"
  float_sub :: "real \<Rightarrow> real \<Rightarrow> real"
  float_sum :: "real list \<Rightarrow> real"

text \<open>
  The embedding service answers with a vector of provider-defined dimension, which has at
  least one component: it is given as its first component and the rest.
\<close>

record services =
  embeddings_create :: "string \<Rightarrow> error + real \<times> real list"
  chat_search_params :: "string \<Rightarrow> error + search_params"
  chat_final_ranking :: "string \<Rightarrow> candidate list \<Rightarrow> error + int list"
  md5 :: "string \<Rightarrow> nat"
  floats :: float_ops

section \<open>Embedding generator (memory_processor.py, generate_memory_embedding)\<close>

definition pseudo_embedding :: "float_ops \<Rightarrow> (string \<Rightarrow> nat) \<Rightarrow> string \<Rightarrow> real list" where
  "pseudo_embedding ops hash txt =
     (let words = split (lower txt);
          word_hashes = map hash (filter (\<lambda>word. word \<noteq> []) words)
      in if word_hashes \<noteq> []
         then map (\<lambda>i. (let values = map (\<lambda>h. h mod (100 + i * 10)) word_hashes
                         in float_sub ops
                              (float_mul ops
                                 (float_div ops
                                    (float_div ops (real (sum_list values)) (real (length values)))
                                    100)
                                 2)
                              1))
                [0..<10]
         else replicate 10 0)"

definition generate_memory_embedding :: "services \<Rightarrow> string \<Rightarrow> real list" where
  "generate_memory_embedding srv txt =
     (case embeddings_create srv txt of
        Inr (x, xs) \<Rightarrow> x # xs
      | Inl err \<Rightarrow> pseudo_embedding (floats srv) (md5 srv) txt)"

section \<open>Recall orchestrator (memory_processor.py, recall_memories)\<close>

text \<open>
  \<open>keyword_search\<close> as it is called: the assignments of lines 209 to 212 raise at the
  first memory that holds a value of the wrong type under \<open>text\<close>, \<open>emotion\<close> or
  \<open>location\<close> (\<open>.lower()\<close> on None, an AttributeError) or under \<open>people\<close> (iterating
  None, a TypeError); otherwise the call returns what \<open>keyword_search\<close> computes.
\<close>

definition keyword_search_call :: "string \<Rightarrow> memory list \<Rightarrow> error + memory list" where
  "keyword_search_call query_text memory_list =
     (case List.find (\<lambda>m. bad ''text'' m \<or> bad ''emotion'' m \<or> bad ''location'' m
                             \<or> bad ''people'' m) memory_list of
        Some m \<Rightarrow>
          Inl (if bad ''text'' m \<or> bad ''emotion'' m \<or> bad ''location'' m
               then AttributeError else TypeError)
      | None \<Rightarrow> Inr (keyword_search query_text memory_list))"

text \<open>
  Lines 259 to 278: the three filters on the decoded search parameters. Each list
  comprehension reads its field of every memory that is left, and raises at one that holds
  None.
\<close>

definition truthy :: "'a list option \<Rightarrow> bool" where
  "truthy v = (case v of None \<Rightarrow> False | Some xs \<Rightarrow> xs \<noteq> [])"

definition filter_emotions :: "search_params \<Rightarrow> memory list \<Rightarrow> error + memory list" where
  "filter_emotions sp filtered_memories =
     (if truthy (sp_emotions sp)
      then (if list_ex (bad ''emotion'') filtered_memories then Inl AttributeError
            else Inr (filter (\<lambda>m. list_ex (\<lambda>e. sublist (lower e) (lower (get [] (emotion m))))
                                      (get [] (sp_emotions sp))) filtered_memories))
      else Inr filtered_memories)"

definition filter_people :: "search_params \<Rightarrow> memory list \<Rightarrow> error + memory list" where
  "filter_people sp filtered_memories =
     (if truthy (sp_people sp)
      then (if list_ex (bad ''people'') filtered_memories then Inl TypeError
            else Inr (filter (\<lambda>m. list_ex (\<lambda>person. lower person \<in> set (map lower (get [] (people m))))
                                      (get [] (sp_people sp))) filtered_memories))
      else Inr filtered_memories)"

definition filter_locations :: "search_params \<Rightarrow> memory list \<Rightarrow> error + memory list" where
  "filter_locations sp filtered_memories =
     (if truthy (sp_locations sp)
      then (if list_ex (bad ''location'') filtered_memories then Inl AttributeError
            else Inr (filter (\<lambda>m. list_ex (\<lambda>l. sublist (lower l) (lower (get [] (location m))))
                                      (get [] (sp_locations sp))) filtered_memories))
      else Inr filtered_memories)"

definition filter_by_params :: "search_params \<Rightarrow> memory list \<Rightarrow> error + memory list" where
  "filter_by_params sp memories =
     (case filter_emotions sp memories of
        Inl e \<Rightarrow> Inl e
      | Inr filtered_memories \<Rightarrow>
          (case filter_people sp filtered_memories of
             Inl e \<Rightarrow> Inl e
           | Inr filtered_memories \<Rightarrow> filter_locations sp filtered_memories))"

text \<open>
  Lines 279 to 295: the handler of the extraction stage, one emotion word at most. Its list
  comprehension (line 293) is outside every inner \<open>try\<close>: what it raises goes to the outer
  handler.
\<close>

definition common_emotions :: "string list" where
  "common_emotions =
     [''happy'', ''sad'', ''angry'', ''excited'', ''frustrated'', ''anxious'', ''peaceful'']"

definition basic_filtering :: "string \<Rightarrow> memory list \<Rightarrow> error + memory list" where
  "basic_filtering query memories =
     (let query_lower = lower query
      in case List.find (\<lambda>e. sublist e query_lower) common_emotions of
           None \<Rightarrow> Inr memories
         | Some e \<Rightarrow>
             (if list_ex (bad ''emotion'') memories then Inl AttributeError
              else Inr (filter (\<lambda>m. sublist e (lower (get [] (emotion m)))) memories)))"

text \<open>
  Lines 235 to 295: the extraction stage. A failure of the call and an exception of the
  filters both end in the handler, which starts again from the whole collection.
\<close>

definition filter_stage :: "services \<Rightarrow> string \<Rightarrow> memory list \<Rightarrow> error + memory list" where
  "filter_stage srv query memories =
     (case chat_search_params srv query of
        Inr sp \<Rightarrow>
          (case filter_by_params sp memories of
             Inr filtered_memories \<Rightarrow> Inr filtered_memories
           | Inl api_error \<Rightarrow> basic_filtering query memories)
      | Inl api_error \<Rightarrow> basic_filtering query memories)"

text \<open>
  Lines 297 to 311: scoring against the query embedding, then the sort. The products and
  their sum are the interpreter's float operations. \<open>semantic_ranking\<close> is what the block
  computes on memories whose embedding is a vector or missing; the block as it runs raises a
  TypeError (\<open>len\<close> of a number, line 303) at a memory that holds a number under
  \<open>embedding\<close>, outside every inner \<open>try\<close>.
\<close>

definition similarity :: "float_ops \<Rightarrow> real list \<Rightarrow> real list \<Rightarrow> real" where
  "similarity ops query_embedding e =
     (let min_len = min (length query_embedding) (length e)
      in float_sum ops
           (map (\<lambda>(a, b). float_mul ops a b)
              (zip (take min_len query_embedding) (take min_len e))))"

definition score_memory :: "float_ops \<Rightarrow> real list \<Rightarrow> memory \<Rightarrow> memory" where
  "score_memory ops query_embedding m =
     (if truthy (embedding m)
      then m\<lparr>relevance_score := Some (similarity ops query_embedding (get [] (embedding m)))\<rparr>
      else m\<lparr>relevance_score := Some 0\<rparr>)"

definition semantic_ranking :: "float_ops \<Rightarrow> real list \<Rightarrow> memory list \<Rightarrow> memory list" where
  "semantic_ranking ops query_embedding filtered_memories =
     (if query_embedding \<noteq> [] \<and> filtered_memories \<noteq> []
      then sorted_reverse (\<lambda>x. get 0 (relevance_score x))
             (map (score_memory ops query_embedding) filtered_memories)
      else filtered_memories)"

definition semantic_ranking_call ::
  "float_ops \<Rightarrow> real list \<Rightarrow> memory list \<Rightarrow> error + memory list" where
  "semantic_ranking_call ops query_embedding filtered_memories =
     (if query_embedding \<noteq> [] \<and> filtered_memories \<noteq> []
         \<and> list_ex (bad ''embedding'') filtered_memories
      then Inl TypeError
      else Inr (semantic_ranking ops query_embedding filtered_memories))"

text \<open>
  Lines 313 to 359: the final ranking. \<open>memory_map\<close> is the dict comprehension over the whole
  filtered list (a later memory replaces an earlier one with the same id); the call receives
  the first 20 memories. The result is \<open>None\<close> when the block falls through to line 360:
  the filtered list is empty, or the call failed and its handler swallowed the exception.
\<close>

definition candidate_of :: "memory \<Rightarrow> candidate" where
  "candidate_of m =
     \<lparr>c_id = mem_id m, c_text = mem_text m, c_date = date m, c_emotion = emotion m,
      c_people = (if bad ''people'' m then None else Some (get [] (people m))),
      c_location = location m\<rparr>"

definition memory_map :: "memory list \<Rightarrow> (int option \<rightharpoonup> memory)" where
  "memory_map filtered_memories = foldl (\<lambda>mp m. mp(mem_id m \<mapsto> m)) Map.empty filtered_memories"

definition reorder :: "int list \<Rightarrow> memory list \<Rightarrow> memory list" where
  "reorder ranked_ids filtered_memories =
     (let mp = memory_map filtered_memories;
          ranked_memories =
            map (\<lambda>mem_id. the (mp (Some mem_id)))
              (filter (\<lambda>mem_id. mp (Some mem_id) \<noteq> None) ranked_ids);
          remaining_memories =
            filter (\<lambda>m. mem_id m \<notin> set (map Some ranked_ids)) filtered_memories
      in ranked_memories @ remaining_memories)"

definition final_ranking :: "services \<Rightarrow> string \<Rightarrow> memory list \<Rightarrow> memory list option" where
  "final_ranking srv query filtered_memories =
     (if filtered_memories \<noteq> []
      then (case chat_final_ranking srv query (map candidate_of (take 20 filtered_memories)) of
              Inr ranked_ids \<Rightarrow> Some (reorder ranked_ids filtered_memories)
            | Inl api_error \<Rightarrow> None)
      else None)"

text \<open>
  The body of the outer \<open>try\<close> (lines 232 to 360) and the function with its handler (lines
  362 to 365). The body raises when the handler of the extraction stage, the scoring block
  or the keyword search of line 360 raises; the outer handler then calls the keyword search
  on the original collection, and what that call raises goes to the caller.
\<close>

definition recall_body :: "services \<Rightarrow> string \<Rightarrow> memory list \<Rightarrow> error + memory list" where
  "recall_body srv query memories =
     (let query_embedding = generate_memory_embedding srv query
      in case filter_stage srv query memories of
           Inl e \<Rightarrow> Inl e
         | Inr filtered_memories \<Rightarrow>
             (case semantic_ranking_call (floats srv) query_embedding filtered_memories of
                Inl e \<Rightarrow> Inl e
              | Inr filtered_memories \<Rightarrow>
                  (case final_ranking srv query filtered_memories of
                     Some result \<Rightarrow> Inr result
                   | None \<Rightarrow>
                       (if filtered_memories \<noteq> [] then Inr filtered_memories
                        else keyword_search_call query memories))))"

definition recall_memories :: "services \<Rightarrow> string \<Rightarrow> memory list \<Rightarrow> error + memory list" where
  "recall_memories srv query memories =
     (if memories = [] then Inr []
      else (case recall_body srv query memories of
              Inr result \<Rightarrow> Inr result
            | Inl e \<Rightarrow> keyword_search_call query memories))"

section \<open>Persistent store (data_store.py)\<close>

text \<open>
  The state the store functions act on: the pickle file (\<open>None\<close> when it does not exist),
  the number of times it has been written, and \<open>st.session_state.memories\<close>. Writing the
  file always succeeds in this model.
\<close>

record store =
  disk :: "memory list option"
  writes :: nat
  session :: "memory list"

definition load_memories :: "store \<Rightarrow> memory list" where
  "load_memories s = (case disk s of Some ms \<Rightarrow> ms | None \<Rightarrow> [])"

definition pickle_dump :: "memory list \<Rightarrow> store \<Rightarrow> store" where
  "pickle_dump memories s = s\<lparr>disk := Some memories, writes := writes s + 1\<rparr>"

definition save_memory :: "memory \<Rightarrow> store \<Rightarrow> store" where
  "save_memory m s =
     (let memories = load_memories s @ [m];
          s = s\<lparr>session := memories\<rparr>
      in pickle_dump memories s)"

text \<open>
  \<open>updated_data\<close> is a partial dict: the keys it sets, in order. \<open>dict.update\<close> assigns
  each of them.
\<close>

datatype field_update =
    SetId "int option"
  | SetText "string option"
  | SetDate "string option"
  | SetEmotion "string option"
  | SetPeople "string list option"
  | SetLocation "string option"
  | SetTopics "string list option"
  | SetContext "string option"
  | SetEmbedding "real list option"
  | SetUnlockDate "string option"
  | SetRelevanceScore "real option"

text \<open>
  Assigning a key: the field takes the value, and the key is listed in \<open>bad_keys\<close> exactly
  when the value is None under one of the four keys read as strings or lists.
\<close>

definition mark :: "string \<Rightarrow> bool \<Rightarrow> memory \<Rightarrow> memory" where
  "mark key is_bad m =
     m\<lparr>bad_keys := (if is_bad then key # removeAll key (bad_keys m)
                     else removeAll key (bad_keys m))\<rparr>"

fun apply_update :: "field_update \<Rightarrow> memory \<Rightarrow> memory" where
  "apply_update (SetId v) m = m\<lparr>mem_id := v\<rparr>"
| "apply_update (SetText v) m = mark ''text'' (v = None) (m\<lparr>mem_text := v\<rparr>)"
| "apply_update (SetDate v) m = m\<lparr>date := v\<rparr>"
| "apply_update (SetEmotion v) m = mark ''emotion'' (v = None) (m\<lparr>emotion := v\<rparr>)"
| "apply_update (SetPeople v) m = mark ''people'' (v = None) (m\<lparr>people := v\<rparr>)"
| "apply_update (SetLocation v) m = mark ''location'' (v = None) (m\<lparr>location := v\<rparr>)"
| "apply_update (SetTopics v) m = m\<lparr>topics := v\<rparr>"
| "apply_update (SetContext v) m = m\<lparr>mem_context := v\<rparr>"
| "apply_update (SetEmbedding v) m = mark ''embedding'' False (m\<lparr>embedding := v\<rparr>)"
| "apply_update (SetUnlockDate v) m = m\<lparr>unlock_date := v\<rparr>"
| "apply_update (SetRelevanceScore v) m = m\<lparr>relevance_score := v\<rparr>"

definition dict_update :: "field_update list \<Rightarrow> memory \<Rightarrow> memory" where
  "dict_update updated_data m = foldl (\<lambda>m u. apply_update u m) m updated_data"

text \<open>
  The loops of \<open>update_memory\<close> and \<open>delete_memory\<close>: the index of the first memory whose
  id equals \<open>memory_id\<close>, if there is one.
\<close>

fun find_index_from :: "nat \<Rightarrow> int \<Rightarrow> memory list \<Rightarrow> nat option" where
  "find_index_from i memory_id [] = None"
| "find_index_from i memory_id (m # ms) =
     (if mem_id m = Some memory_id then Some i else find_index_from (i + 1) memory_id ms)"

definition update_memory :: "int \<Rightarrow> field_update list \<Rightarrow> store \<Rightarrow> bool \<times> store" where
  "update_memory memory_id updated_data s =
     (let memories = load_memories s
      in case find_index_from 0 memory_id memories of
           Some i \<Rightarrow>
             (let memories = memories[i := dict_update updated_data (memories ! i)];
                  s = pickle_dump memories s;
                  s = s\<lparr>session := memories\<rparr>
              in (True, s))
         | None \<Rightarrow> (False, s))"

definition update_memory_unlock_date :: "int \<Rightarrow> string \<Rightarrow> store \<Rightarrow> bool \<times> store" where
  "update_memory_unlock_date memory_id new_unlock_date s =
     update_memory memory_id [SetUnlockDate (Some new_unlock_date)] s"

definition delete_memory :: "int \<Rightarrow> store \<Rightarrow> bool \<times> store" where
  "delete_memory memory_id s =
     (let memories = load_memories s
      in case find_index_from 0 memory_id memories of
           Some i \<Rightarrow>
             (let memories = take i memories @ drop (i + 1) memories;
                  s = pickle_dump memories s;
                  s = s\<lparr>session := memories\<rparr>
              in (True, s))
         | None \<Rightarrow> (False, s))"

text \<open>
  A JSON text is taken by what \<open>json.loads\<close> makes of it: a list of memory dicts, or a
  failure (a text that is not JSON, or not a list of dicts). \<open>json.dumps\<close> of a list of
  memories without embeddings is the text that loads back to that list.
\<close>

datatype json_str = Json "memory list" | Malformed

definition export_memories_json :: "store \<Rightarrow> json_str" where
  "export_memories_json s =
     (let memories = load_memories s;
          serializable_memories = map (mark ''embedding'' False \<circ> (\<lambda>m. m\<lparr>embedding := None\<rparr>)) memories
      in Json serializable_memories)"

text \<open>\<open>max(ids, default=0)\<close>.\<close>

definition max_default :: "int list \<Rightarrow> int" where
  "max_default ids = (case ids of [] \<Rightarrow> 0 | i # rest \<Rightarrow> fold max rest i)"

fun import_loop :: "int \<Rightarrow> memory list \<Rightarrow> memory list \<Rightarrow> memory list" where
  "import_loop next_id current_memories [] = current_memories"
| "import_loop next_id current_memories (m # imported) =
     import_loop (next_id + 1) (current_memories @ [m\<lparr>mem_id := Some next_id\<rparr>]) imported"

definition import_memories_json :: "json_str \<Rightarrow> store \<Rightarrow> bool \<times> store" where
  "import_memories_json json s =
     (case json of
        Malformed \<Rightarrow> (False, s)
      | Json imported_memories \<Rightarrow>
          (let current_memories = load_memories s;
               next_id = max_default (map (\<lambda>m. get 0 (mem_id m)) current_memories) + 1;
               current_memories = import_loop next_id current_memories imported_memories;
               s = pickle_dump current_memories s;
               s = s\<lparr>session := current_memories\<rparr>
           in (True, s)))"

section \<open>Application (app.py)\<close>

text \<open>
  Saving a memory on the Capture tab (lines 200 to 218) and creating a time capsule (lines
  375 to 393): the id is the length of the session list plus one; after \<open>save_memory\<close> the
  session list is reloaded from the file. The arguments are the values the dict literal is
  built from.
\<close>

definition new_memory ::
  "store \<Rightarrow> string \<Rightarrow> string \<Rightarrow> string \<Rightarrow> string list \<Rightarrow> string \<Rightarrow> string list \<Rightarrow> string
     \<Rightarrow> real list \<Rightarrow> string option \<Rightarrow> memory" where
  "new_memory s memory_text now emo ppl loc tps ctx emb unlock =
     \<lparr>mem_id = Some (int (length (session s)) + 1), mem_text = Some memory_text,
      date = Some now, emotion = Some emo, people = Some ppl, location = Some loc,
      topics = Some tps, mem_context = Some ctx, embedding = Some emb,
      unlock_date = unlock, relevance_score = None, bad_keys = []\<rparr>"

definition capture_memory ::
  "string \<Rightarrow> string \<Rightarrow> string \<Rightarrow> string list \<Rightarrow> string \<Rightarrow> string list \<Rightarrow> string
     \<Rightarrow> real list \<Rightarrow> string option \<Rightarrow> store \<Rightarrow> store" where
  "capture_memory memory_text now emo ppl loc tps ctx emb unlock s =
     (let memory = new_memory s memory_text now emo ppl loc tps ctx emb unlock;
          s = save_memory memory s
      in s\<lparr>session := load_memories s\<rparr>)"

text \<open>
  The unlock filter, written three times in app.py (lines 275, 318 and 458):
  \<open>not m.get('unlock_date') or m.get('unlock_date') <= current_date\<close>, a comparison of
  ISO strings. Line 137 counts the locked memories with the opposite test.
\<close>

definition unlocked :: "string \<Rightarrow> memory \<Rightarrow> bool" where
  "unlocked current_date m = (\<not> truthy (unlock_date m) \<or> get [] (unlock_date m) \<le> current_date)"

definition locked :: "string \<Rightarrow> memory \<Rightarrow> bool" where
  "locked current_date m = (truthy (unlock_date m) \<and> get [] (unlock_date m) > current_date)"

definition available_memories :: "string \<Rightarrow> memory list \<Rightarrow> memory list" where
  "available_memories current_date memories = filter (unlocked current_date) memories"

text \<open>
  What each tab hands on. Recall tab, lines 262 to 276: with a query and the button pressed
  the whole session list goes to \<open>recall_memories\<close>; otherwise the list is browsed through
  the unlock filter (the emotion, person and date filters that follow only narrow it).
  Mind Map tab, line 324, and Summaries tab, lines 458 to 491: the unlocked memories (the
  period filter of the summary only narrows them).
\<close>

definition recall_tab :: "services \<Rightarrow> string \<Rightarrow> bool \<Rightarrow> string \<Rightarrow> memory list \<Rightarrow> error + memory list" where
  "recall_tab srv search_query search_button current_date memories =
     (if search_query \<noteq> [] \<and> search_button then recall_memories srv search_query memories
      else Inr (available_memories current_date memories))"

definition mind_map_input :: "string \<Rightarrow> memory list \<Rightarrow> memory list" where
  "mind_map_input current_date memories = available_memories current_date memories"

definition summary_input :: "string \<Rightarrow> memory list \<Rightarrow> memory list" where
  "summary_input current_date memories = available_memories current_date memories"


section \<open>Definitions for stating the properties\<close>

text \<open>
  The relevance of step 5 in the specification's words: the dot product of the two vectors
  over the indices below the shorter length, in the interpreter's float arithmetic, and 0
  for a memory without an embedding (none, or an empty one).
\<close>

definition spec_relevance :: "float_ops \<Rightarrow> real list \<Rightarrow> memory \<Rightarrow> real" where
  "spec_relevance ops query_embedding m =
     (case embedding m of
        None \<Rightarrow> 0
      | Some e \<Rightarrow>
          (if e = [] then 0
           else float_sum ops
                  (map (\<lambda>i. float_mul ops (query_embedding ! i) (e ! i))
                     [0..<min (length query_embedding) (length e)])))"




text \<open>
  The location rule as the code has it: the candidate of a keyword is the text after the
  first \<open>" kw "\<close>, up to the next \<open>" kw "\<close>, full stop or comma, whichever comes first.
\<close>

fun before_first :: "string \<Rightarrow> string \<Rightarrow> string" where
  "before_first sep [] = []"
| "before_first sep (c # cs) = (if prefix sep (c # cs) then [] else c # before_first sep cs)"

definition location_candidate :: "string \<Rightarrow> string \<Rightarrow> string" where
  "location_candidate keyword txt =
     (case after_first ('' '' @ keyword @ '' '') txt of
        None \<Rightarrow> []
      | Some rest \<Rightarrow>
          takeWhile (\<lambda>c. c \<noteq> CHR ''.'' \<and> c \<noteq> CHR '','')
            (before_first ('' '' @ keyword @ '' '') rest))"

section \<open>Example data\<close>

text \<open>
  Concrete memories, stores and services at which the theorems below are instantiated. The
  example services compute with exact arithmetic and a sum of character codes in the place
  of the float operations and of MD5.
\<close>

definition m1 :: memory where
  "m1 = \<lparr>mem_id = Some 1, mem_text = Some ''first'', date = Some ''2026-01-01T09:00:00'',
         emotion = Some ''Happy'', people = Some [''Maria''], location = Some ''Home'',
         topics = Some [], mem_context = Some '''', embedding = Some [1, 0],
         unlock_date = None, relevance_score = None, bad_keys = []\<rparr>"

definition m2 :: memory where
  "m2 = \<lparr>mem_id = Some 4, mem_text = Some ''second'', date = Some ''2026-02-01T09:00:00'',
         emotion = Some ''Sad'', people = Some [], location = Some ''Unknown'',
         topics = Some [], mem_context = Some '''', embedding = Some [0, 1],
         unlock_date = None, relevance_score = None, bad_keys = []\<rparr>"

definition two_memories :: store where
  "two_memories = \<lparr>disk = Some [m1, m2], writes = 2, session = [m1, m2]\<rparr>"

definition empty_store :: store where
  "empty_store = \<lparr>disk = None, writes = 0, session = []\<rparr>"

definition exact_floats :: float_ops where
  "exact_floats =
     \<lparr>float_mul = (\<lambda>a b. a * b), float_div = (\<lambda>a b. a / b), float_sub = (\<lambda>a b. a - b),
      float_sum = sum_list\<rparr>"

definition services_down :: services where
  "services_down =
     \<lparr>embeddings_create = (\<lambda>txt. Inl ApiError),
      chat_search_params = (\<lambda>query. Inl ApiError),
      chat_final_ranking = (\<lambda>query candidates. Inl ApiError),
      md5 = (\<lambda>word. sum_list (map of_char word)),
      floats = exact_floats\<rparr>"

definition capsule :: memory where
  "capsule = \<lparr>mem_id = Some 1, mem_text = Some ''Note to my future self about the beach'',
         date = Some ''2026-11-01T09:00:00'', emotion = Some ''Hopeful'', people = Some [],
         location = Some ''Time Capsule'', topics = Some [], mem_context = Some '''',
         embedding = Some [1, 0], unlock_date = Some ''2027-11-03'', relevance_score = None,
         bad_keys = []\<rparr>"

text \<open>
  Services whose embedding and extraction calls fail and whose ranking call answers with the
  ids 9, 4, 4 whatever the candidates.
\<close>

definition services_ranking :: services where
  "services_ranking = services_down\<lparr>chat_final_ranking := (\<lambda>query candidates. Inr [9, 4, 4])\<rparr>"

definition five_memories :: "memory list" where
  "five_memories =
     [m1, m2, m2\<lparr>mem_id := Some 9\<rparr>, m2\<lparr>mem_text := Some ''dup''\<rparr>, m1\<lparr>mem_id := None\<rparr>]"



definition ranking_input :: "memory list" where
  "ranking_input =
     [m2, m1, m2\<lparr>embedding := None\<rparr>, m1\<lparr>embedding := Some [3, 1, 1, 1]\<rparr>,
      m2\<lparr>embedding := Some []\<rparr>]"

section \<open>Sorting facts\<close>

lemma mset_sorted_reverse: "mset (sorted_reverse key xs) = mset xs"
  by (simp add: sorted_reverse_def)

lemma set_sorted_reverse: "set (sorted_reverse key xs) = set xs"
  by (simp add: sorted_reverse_def)

lemma sorted_reverse_descending:
  "sorted_wrt (\<lambda>a b. key b \<le> key a) (sorted_reverse key xs)"
proof -
  have "sorted (map (\<lambda>x. - key x) (sorted_reverse key xs))"
    by (simp add: sorted_reverse_def)
  then show ?thesis
    by (simp add: sorted_map sorted_wrt_iff_nth_less)
qed

lemma sorted_reverse_stable:
  "filter (\<lambda>x. key x = c) (sorted_reverse key xs) = filter (\<lambda>x. key x = c) xs"
proof -
  have "filter (\<lambda>x. - key x = - c) (sort_key (\<lambda>x. - key x) xs) = filter (\<lambda>x. - key x = - c) xs"
    by (rule sort_key_stable)
  then show ?thesis by (simp add: sorted_reverse_def)
qed

section \<open>The keyword scorer\<close>

lemma sum_const_filter:
  "(\<Sum>w\<leftarrow>filter P ws. (c::int)) = (\<Sum>w\<leftarrow>ws. if P w then c else 0)"
  by (induction ws) auto

lemma keyword_score_spec:
  "keyword_score (split (lower q)) m = spec_keyword_score q m"
  unfolding keyword_score_def spec_keyword_score_def Let_def
  by (simp add: sum_const_filter sum_list_addf)

lemma keyword_search_sorted_reverse:
  "keyword_search query memories
     = sorted_reverse (\<lambda>x. get 0 (relevance_score x))
         (map (\<lambda>m. m\<lparr>relevance_score := Some (of_int (spec_keyword_score query m))\<rparr>) memories)"
  by (simp add: keyword_search_def keyword_score_spec)

text \<open>
  Claim C4. For every query and memory collection, the keyword scorer gives each memory the
  score that sums, over the whitespace-split lower-case query tokens, 1 for a token occurring
  in the text, 3 in the emotion, 2 in the location and 2 in the space-joined people list. It
  returns all the memories, each carrying that score in \<open>relevance_score\<close>, in descending
  order of score, and the memories of any one score \<open>k\<close> appear in their original order.
\<close>

theorem keyword_search_scores_and_order:
  "mset (keyword_search query memories)
     = mset (map (\<lambda>m. m\<lparr>relevance_score := Some (of_int (spec_keyword_score query m))\<rparr>) memories)
   \<and> sorted_wrt (\<lambda>a b. get 0 (relevance_score b) \<le> get 0 (relevance_score a))
        (keyword_search query memories)
   \<and> filter (\<lambda>m. relevance_score m = Some (of_int k)) (keyword_search query memories)
       = map (\<lambda>m. m\<lparr>relevance_score := Some (of_int (spec_keyword_score query m))\<rparr>)
           (filter (\<lambda>m. spec_keyword_score query m = k) memories)"
proof -
  define annotate where
    "annotate = (\<lambda>m. m\<lparr>relevance_score := Some (of_int (spec_keyword_score query m))\<rparr>)"
  have ks: "keyword_search query memories
              = sorted_reverse (\<lambda>x. get 0 (relevance_score x)) (map annotate memories)"
    by (simp add: keyword_search_sorted_reverse annotate_def)
  have all_mset: "mset (keyword_search query memories) = mset (map annotate memories)"
    by (simp only: ks mset_sorted_reverse)
  have desc: "sorted_wrt (\<lambda>a b. get 0 (relevance_score b) \<le> get 0 (relevance_score a))
           (keyword_search query memories)"
    by (simp only: ks sorted_reverse_descending)
  have all_some: "\<And>m. m \<in> set (keyword_search query memories) \<Longrightarrow> relevance_score m \<noteq> None"
    using mset_eq_setD[OF all_mset] by (auto simp: annotate_def)
  have "filter (\<lambda>m. relevance_score m = Some (of_int k)) (keyword_search query memories)
        = filter (\<lambda>m. get 0 (relevance_score m) = of_int k) (keyword_search query memories)"
  proof (intro filter_cong refl)
    fix m assume "m \<in> set (keyword_search query memories)"
    then obtain y where "relevance_score m = Some y" using all_some by blast
    then show "(relevance_score m = Some (of_int k)) = (get 0 (relevance_score m) = of_int k)"
      by (simp add: get_def)
  qed
  also have "\<dots> = filter (\<lambda>m. get 0 (relevance_score m) = of_int k) (map annotate memories)"
    by (simp only: ks sorted_reverse_stable)
  also have "\<dots> = map annotate (filter (\<lambda>m. spec_keyword_score query m = k) memories)"
    by (simp add: filter_map o_def annotate_def get_def)
  finally have stable:
    "filter (\<lambda>m. relevance_score m = Some (of_int k)) (keyword_search query memories)
       = map annotate (filter (\<lambda>m. spec_keyword_score query m = k) memories)" .
  from all_mset desc stable show ?thesis
    unfolding annotate_def by blast
qed

section \<open>The fallback emotion classifier\<close>














section \<open>The store\<close>

lemma find_index_from_None:
  "find_index_from i memory_id ms = None \<longleftrightarrow> Some memory_id \<notin> mem_id ` set ms"
  by (induction ms arbitrary: i) auto

text \<open>
  Claim C10. For every stored collection and every id that no stored memory carries,
  \<open>update_memory\<close> and \<open>delete_memory\<close> return False and leave the state as it was: the
  file, the count of writes to it and the session list are all unchanged.
\<close>

theorem update_delete_absent_id:
  "Some memory_id \<notin> mem_id ` set (load_memories s) \<Longrightarrow>
     update_memory memory_id updated_data s = (False, s) \<and> delete_memory memory_id s = (False, s)"
proof -
  assume "Some memory_id \<notin> mem_id ` set (load_memories s)"
  then have "find_index_from 0 memory_id (load_memories s) = None"
    by (simp add: find_index_from_None)
  then show ?thesis
    by (simp add: update_memory_def delete_memory_def Let_def)
qed

theorem update_delete_absent_id_witness:
  "Some 7 \<notin> mem_id ` set (load_memories \<lparr>disk = Some [m1], writes = 1, session = [m1]\<rparr>)
   \<and> update_memory 7 [SetUnlockDate (Some ''2027-01-01'')] \<lparr>disk = Some [m1], writes = 1, session = [m1]\<rparr>
       = (False, \<lparr>disk = Some [m1], writes = 1, session = [m1]\<rparr>)
   \<and> delete_memory 7 \<lparr>disk = Some [m1], writes = 1, session = [m1]\<rparr>
       = (False, \<lparr>disk = Some [m1], writes = 1, session = [m1]\<rparr>)"
proof -
  have h: "Some 7 \<notin> mem_id ` set (load_memories \<lparr>disk = Some [m1], writes = 1, session = [m1]\<rparr>)"
    by (simp add: load_memories_def m1_def)
  from h update_delete_absent_id [OF h, of "[SetUnlockDate (Some ''2027-01-01'')]"]
  show ?thesis by blast
qed

lemma import_loop_append:
  "import_loop n cur imp = cur @ import_loop n [] imp"
proof (induction imp arbitrary: n cur)
  case Nil
  then show ?case by simp
next
  case (Cons m imp)
  have "import_loop n cur (m # imp) = import_loop (n + 1) (cur @ [m\<lparr>mem_id := Some n\<rparr>]) imp"
    by simp
  also have "\<dots> = (cur @ [m\<lparr>mem_id := Some n\<rparr>]) @ import_loop (n + 1) [] imp"
    by (rule Cons.IH)
  also have "\<dots> = cur @ import_loop (n + 1) [m\<lparr>mem_id := Some n\<rparr>] imp"
    using Cons.IH[of "n + 1" "[m\<lparr>mem_id := Some n\<rparr>]"] by simp
  finally show ?case by simp
qed

lemma import_loop_Cons:
  "import_loop n [] (m # imp) = m\<lparr>mem_id := Some n\<rparr> # import_loop (n + 1) [] imp"
  using import_loop_append[of "n + 1" "[m\<lparr>mem_id := Some n\<rparr>]" imp] by simp

lemma import_loop_fields:
  "(\<And>m v. f (m\<lparr>mem_id := v\<rparr>) = f m) \<Longrightarrow> map f (import_loop n [] imp) = map f imp"
  by (induction imp arbitrary: n) (simp_all add: import_loop_Cons del: import_loop.simps(2))

lemma import_loop_ids:
  "map mem_id (import_loop n [] imp) = map (\<lambda>k. Some (n + int k)) [0..<length imp]"
proof (induction imp arbitrary: n)
  case Nil
  then show ?case by simp
next
  case (Cons m imp)
  have "[0..<length (m # imp)] = 0 # map Suc [0..<length imp]"
    by (simp add: upt_conv_Cons map_Suc_upt del: upt_Suc)
  then show ?case
    by (simp add: import_loop_Cons Cons.IH o_def add.assoc del: upt_Suc import_loop.simps(2))
qed

lemma max_default_ge: "x \<in> set ids \<Longrightarrow> x \<le> max_default ids"
proof (cases ids)
  case Nil
  assume "x \<in> set ids" with Nil show ?thesis by simp
next
  case (Cons i rest)
  assume x: "x \<in> set ids"
  have "max_default ids = Max (set (i # rest))"
    using Max.set_eq_fold[of i rest] by (simp add: max_default_def Cons)
  with x Cons show ?thesis by simp
qed


lemma load_after_import:
  "import_memories_json (Json imp) s0 = (ok, s') \<Longrightarrow>
     ok \<and> session s' = load_memories s' \<and>
     load_memories s'
       = load_memories s0
         @ import_loop (max_default (map (\<lambda>m. get 0 (mem_id m)) (load_memories s0)) + 1) [] imp"
  using import_loop_append
    [of "max_default (map (\<lambda>m. get 0 (mem_id m)) (load_memories s0)) + 1" "load_memories s0" imp]
  by (auto simp: import_memories_json_def Let_def pickle_dump_def load_memories_def)

lemma existing_id_below_next:
  assumes "m \<in> set ms" "mem_id m = Some j"
  shows "j < max_default (map (\<lambda>m. get 0 (mem_id m)) ms) + 1"
proof -
  have "get 0 (mem_id m) \<in> set (map (\<lambda>m. get 0 (mem_id m)) ms)"
    using assms(1) by simp
  then have "get 0 (mem_id m) \<le> max_default (map (\<lambda>m. get 0 (mem_id m)) ms)"
    by (rule max_default_ge)
  with assms(2) show ?thesis by (simp add: get_def)
qed

text \<open>
  Claim C9. Exporting a collection to JSON and importing the result (into any store) appends
  one record per exported record, with the same \<open>text\<close>, \<open>date\<close>, \<open>emotion\<close>,
  \<open>people\<close> and \<open>location\<close>, without an embedding, and with ids numbered upwards from
  one more than the largest id already in the store: the new ids are pairwise distinct and
  none of them is an id already in the store.
\<close>

theorem export_import_round_trip:
  assumes "import_memories_json (export_memories_json s) s0 = (ok, s')"
    and "imported = drop (length (load_memories s0)) (load_memories s')"
    and "next_id = max_default (map (\<lambda>m. get 0 (mem_id m)) (load_memories s0)) + 1"
  shows "ok \<and> load_memories s' = load_memories s0 @ imported
    \<and> map mem_text imported = map mem_text (load_memories s)
    \<and> map date imported = map date (load_memories s)
    \<and> map emotion imported = map emotion (load_memories s)
    \<and> map people imported = map people (load_memories s)
    \<and> map location imported = map location (load_memories s)
    \<and> map embedding imported = map (\<lambda>m. None) (load_memories s)
    \<and> map mem_id imported = map (\<lambda>k. Some (next_id + int k)) [0..<length (load_memories s)]
    \<and> distinct (map mem_id imported)
    \<and> set (map mem_id imported) \<inter> set (map mem_id (load_memories s0)) = {}"
proof -
  define stripped where
    "stripped = map (mark ''embedding'' False \<circ> (\<lambda>m. m\<lparr>embedding := None\<rparr>)) (load_memories s)"
  have ex: "export_memories_json s = Json stripped"
    by (simp add: export_memories_json_def stripped_def)
  from assms(1) have l: "ok" "load_memories s' = load_memories s0 @ import_loop next_id [] stripped"
    using load_after_import[of stripped s0 ok s'] by (simp_all add: ex assms(3))
  with assms(2) have imp: "imported = import_loop next_id [] stripped" by simp
  have ids: "map mem_id imported = map (\<lambda>k. Some (next_id + int k)) [0..<length (load_memories s)]"
    by (simp add: imp import_loop_ids stripped_def)
  have inj: "inj_on (\<lambda>k. Some (next_id + int k)) (set [0..<length (load_memories s)])"
    by (auto simp: inj_on_def)
  have dist: "distinct (map mem_id imported)"
    unfolding ids by (simp add: distinct_map inj del: upt_Suc set_upt)
  have fresh: "set (map mem_id imported) \<inter> set (map mem_id (load_memories s0)) = {}"
  proof (rule ccontr)
    assume "set (map mem_id imported) \<inter> set (map mem_id (load_memories s0)) \<noteq> {}"
    then obtain v where v1: "v \<in> set (map mem_id imported)"
      and v2: "v \<in> set (map mem_id (load_memories s0))" by blast
    from v1 obtain k where k: "v = Some (next_id + int k)" unfolding ids by auto
    from v2 obtain m where m: "m \<in> set (load_memories s0)" "mem_id m = v" by auto
    from existing_id_below_next[OF m(1)] m(2) k assms(3) show False by simp
  qed
  have f1: "map mem_text imported = map mem_text (load_memories s)"
    by (simp add: imp import_loop_fields stripped_def o_def mark_def)
  have f2: "map date imported = map date (load_memories s)"
    by (simp add: imp import_loop_fields stripped_def o_def mark_def)
  have f3: "map emotion imported = map emotion (load_memories s)"
    by (simp add: imp import_loop_fields stripped_def o_def mark_def)
  have f4: "map people imported = map people (load_memories s)"
    by (simp add: imp import_loop_fields stripped_def o_def mark_def)
  have f5: "map location imported = map location (load_memories s)"
    by (simp add: imp import_loop_fields stripped_def o_def mark_def)
  have f6: "map embedding imported = map (\<lambda>m. None) (load_memories s)"
    by (simp add: imp import_loop_fields stripped_def o_def mark_def)
  from l imp ids dist fresh f1 f2 f3 f4 f5 f6 show ?thesis by simp
qed

theorem export_import_round_trip_witness:
  "map mem_id (drop 2 (load_memories (snd (import_memories_json
       (export_memories_json two_memories) two_memories)))) = [Some 5, Some 6]
   \<and> map mem_text (drop 2 (load_memories (snd (import_memories_json
       (export_memories_json two_memories) two_memories)))) = [Some ''first'', Some ''second'']
   \<and> map embedding (drop 2 (load_memories (snd (import_memories_json
       (export_memories_json two_memories) two_memories)))) = [None, None]"
proof -
  have ld: "load_memories two_memories = [m1, m2]"
    by (simp add: two_memories_def load_memories_def)
  have nx: "max_default (map (\<lambda>m. get 0 (mem_id m)) (load_memories two_memories)) + 1 = 5"
    by (simp add: ld max_default_def get_def m1_def m2_def)
  have "map mem_text (drop (length (load_memories two_memories))
            (load_memories (snd (import_memories_json (export_memories_json two_memories) two_memories))))
          = map mem_text (load_memories two_memories)
      \<and> map embedding (drop (length (load_memories two_memories))
            (load_memories (snd (import_memories_json (export_memories_json two_memories) two_memories))))
          = map (\<lambda>m. None) (load_memories two_memories)
      \<and> map mem_id (drop (length (load_memories two_memories))
            (load_memories (snd (import_memories_json (export_memories_json two_memories) two_memories))))
          = map (\<lambda>k. Some (max_default (map (\<lambda>m. get 0 (mem_id m)) (load_memories two_memories)) + 1 + int k))
              [0..<length (load_memories two_memories)]"
    using export_import_round_trip [of two_memories two_memories
        "fst (import_memories_json (export_memories_json two_memories) two_memories)"
        "snd (import_memories_json (export_memories_json two_memories) two_memories)", OF _ refl refl]
    by simp
  then show ?thesis
    unfolding nx unfolding ld by (simp add: m1_def m2_def upt_rec numeral_2_eq_2)
qed

section \<open>The application: ids and time capsules\<close>

lemma unlocked_iff_not_locked: "unlocked current_date m \<longleftrightarrow> \<not> locked current_date m"
  by (auto simp: unlocked_def locked_def)

lemma available_memories_set:
  "set (available_memories current_date memories) = {m \<in> set memories. \<not> locked current_date m}"
  by (auto simp: available_memories_def unlocked_iff_not_locked)

text \<open>
  Claim C3 (ids are unique, a new memory gets the maximum id plus one). The Capture tab
  numbers a new memory by the length of the session list. Starting from the empty store,
  three captures give the ids 1, 2, 3; after \<open>delete_memory 1\<close> the store holds 2 and 3,
  and the next capture is given the id 3 again, not 4: two stored memories share an id.
\<close>

theorem capture_after_delete_repeats_id:
  "map mem_id (load_memories
     (capture_memory ''d'' ''2026-01-04'' ''Happy'' [] ''Unknown'' [] '''' [1] None
       (snd (delete_memory 1
         (capture_memory ''c'' ''2026-01-03'' ''Happy'' [] ''Unknown'' [] '''' [1] None
           (capture_memory ''b'' ''2026-01-02'' ''Happy'' [] ''Unknown'' [] '''' [1] None
             (capture_memory ''a'' ''2026-01-01'' ''Happy'' [] ''Unknown'' [] '''' [1] None
                empty_store)))))))
   = [Some 2, Some 3, Some 3]"
  by code_simp

text \<open>
  Claim C2 (a locked time capsule is kept out of recall, mind map and summary). At
  10:00 on 2026-11-03 the capsule with unlock date 2027-11-03 is locked; the mind map, the
  summary and the browsing branch of the Recall tab leave it out, but a search on the
  Recall tab hands the unfiltered session list to \<open>recall_memories\<close>, which returns it.
\<close>

theorem locked_capsule_reaches_recall:
  "locked ''2026-11-03T10:00:00'' capsule
   \<and> mind_map_input ''2026-11-03T10:00:00'' [capsule] = []
   \<and> summary_input ''2026-11-03T10:00:00'' [capsule] = []
   \<and> recall_tab services_down ''beach'' False ''2026-11-03T10:00:00'' [capsule] = Inr []
   \<and> recall_tab services_down ''beach'' True ''2026-11-03T10:00:00'' [capsule]
       = Inr [capsule\<lparr>relevance_score := Some (49 / 50)\<rparr>]"
  by code_simp

section \<open>Recall: the embedding ranking\<close>

lemma products_nth:
  "n = min (length q) (length e) \<Longrightarrow>
     map (\<lambda>(a, b). f a b) (zip (take n q) (take n e)) = map (\<lambda>i. f (q ! i) (e ! i)) [0..<n]"
  by (rule nth_equalityI) auto

lemma similarity_dot:
  "similarity ops q e
     = float_sum ops (map (\<lambda>i. float_mul ops (q ! i) (e ! i)) [0..<min (length q) (length e)])"
  unfolding similarity_def Let_def
  by (simp only: products_nth [OF refl])

lemma score_memory_spec:
  "score_memory ops q m = m\<lparr>relevance_score := Some (spec_relevance ops q m)\<rparr>"
  by (cases "embedding m")
     (auto simp: score_memory_def spec_relevance_def truthy_def similarity_dot get_def)

lemma length_pseudo_embedding: "length (pseudo_embedding ops hash t) = 10"
  by (simp add: pseudo_embedding_def Let_def)

lemma generate_memory_embedding_nonempty: "generate_memory_embedding srv q \<noteq> []"
proof (cases "embeddings_create srv q")
  case (Inl err)
  have "length (pseudo_embedding (floats srv) (md5 srv) q) = 10"
    by (rule length_pseudo_embedding)
  then have "pseudo_embedding (floats srv) (md5 srv) q \<noteq> []" by auto
  with Inl show ?thesis by (simp add: generate_memory_embedding_def)
next
  case (Inr v)
  then show ?thesis by (cases v) (simp add: generate_memory_embedding_def)
qed


lemma semantic_ranking_scored:
  "q \<noteq> [] \<Longrightarrow> fs \<noteq> [] \<Longrightarrow>
     semantic_ranking ops q fs
       = sorted_reverse (\<lambda>x. get 0 (relevance_score x))
           (map (\<lambda>m. m\<lparr>relevance_score := Some (spec_relevance ops q m)\<rparr>) fs)"
proof -
  have "score_memory ops q = (\<lambda>m. m\<lparr>relevance_score := Some (spec_relevance ops q m)\<rparr>)"
    by (rule ext) (rule score_memory_spec)
  then show "q \<noteq> [] \<Longrightarrow> fs \<noteq> [] \<Longrightarrow> ?thesis"
    by (simp add: semantic_ranking_def)
qed

text \<open>
  Claim C6. For every non-empty filtered set, each memory's relevance score is the dot
  product of the query embedding of the recall and the memory's embedding over the indices
  below the shorter length, in float arithmetic and not normalized, and 0 for a memory
  without an embedding; the ranked list holds exactly the filtered memories carrying these
  scores, in descending order of score, the memories of any one score \<open>k\<close> in their prior
  order. The block returns this list whenever no filtered memory holds a number in the
  place of its embedding.
\<close>

theorem semantic_ranking_scores_and_order:
  assumes "filtered_memories \<noteq> []"
  shows "(\<not> list_ex (bad ''embedding'') filtered_memories \<longrightarrow>
            semantic_ranking_call (floats srv) (generate_memory_embedding srv query) filtered_memories
              = Inr (semantic_ranking (floats srv) (generate_memory_embedding srv query)
                       filtered_memories))
   \<and> mset (semantic_ranking (floats srv) (generate_memory_embedding srv query) filtered_memories)
       = mset (map (\<lambda>m. m\<lparr>relevance_score :=
                              Some (spec_relevance (floats srv)
                                      (generate_memory_embedding srv query) m)\<rparr>)
                 filtered_memories)
   \<and> sorted_wrt (\<lambda>a b. get 0 (relevance_score b) \<le> get 0 (relevance_score a))
        (semantic_ranking (floats srv) (generate_memory_embedding srv query) filtered_memories)
   \<and> filter (\<lambda>m. relevance_score m = Some k)
        (semantic_ranking (floats srv) (generate_memory_embedding srv query) filtered_memories)
       = map (\<lambda>m. m\<lparr>relevance_score :=
                      Some (spec_relevance (floats srv) (generate_memory_embedding srv query) m)\<rparr>)
           (filter (\<lambda>m. spec_relevance (floats srv) (generate_memory_embedding srv query) m = k)
              filtered_memories)"
proof -
  define qe where "qe = generate_memory_embedding srv query"
  define ops where "ops = floats srv"
  define annotate where
    "annotate = (\<lambda>m. m\<lparr>relevance_score := Some (spec_relevance ops qe m)\<rparr>)"
  have qe: "qe \<noteq> []" unfolding qe_def by (rule generate_memory_embedding_nonempty)
  have sr: "semantic_ranking ops qe filtered_memories
              = sorted_reverse (\<lambda>x. get 0 (relevance_score x)) (map annotate filtered_memories)"
    using assms qe by (simp add: semantic_ranking_scored annotate_def)
  have call: "\<not> list_ex (bad ''embedding'') filtered_memories \<longrightarrow>
            semantic_ranking_call ops qe filtered_memories
              = Inr (semantic_ranking ops qe filtered_memories)"
    by (simp add: semantic_ranking_call_def)
  have all_mset: "mset (semantic_ranking ops qe filtered_memories)
                    = mset (map annotate filtered_memories)"
    by (simp only: sr mset_sorted_reverse)
  have desc: "sorted_wrt (\<lambda>a b. get 0 (relevance_score b) \<le> get 0 (relevance_score a))
                (semantic_ranking ops qe filtered_memories)"
    by (simp only: sr sorted_reverse_descending)
  have all_some: "\<And>m. m \<in> set (semantic_ranking ops qe filtered_memories)
                    \<Longrightarrow> relevance_score m \<noteq> None"
    using mset_eq_setD[OF all_mset] by (auto simp: annotate_def)
  have "filter (\<lambda>m. relevance_score m = Some k) (semantic_ranking ops qe filtered_memories)
        = filter (\<lambda>m. get 0 (relevance_score m) = k) (semantic_ranking ops qe filtered_memories)"
  proof (intro filter_cong refl)
    fix m assume "m \<in> set (semantic_ranking ops qe filtered_memories)"
    then obtain y where "relevance_score m = Some y" using all_some by blast
    then show "(relevance_score m = Some k) = (get 0 (relevance_score m) = k)"
      by (simp add: get_def)
  qed
  also have "\<dots> = filter (\<lambda>m. get 0 (relevance_score m) = k) (map annotate filtered_memories)"
    by (simp only: sr sorted_reverse_stable)
  also have "\<dots> = map annotate (filter (\<lambda>m. spec_relevance ops qe m = k) filtered_memories)"
    by (simp add: filter_map o_def annotate_def get_def)
  finally have stable:
    "filter (\<lambda>m. relevance_score m = Some k) (semantic_ranking ops qe filtered_memories)
       = map annotate (filter (\<lambda>m. spec_relevance ops qe m = k) filtered_memories)" .
  from call all_mset desc stable show ?thesis
    unfolding annotate_def qe_def ops_def by blast
qed


theorem semantic_ranking_scores_and_order_witness:
  "ranking_input \<noteq> []
   \<and> \<not> list_ex (bad ''embedding'') ranking_input
   \<and> semantic_ranking_call (floats services_down)
        (generate_memory_embedding services_down ''beach'') ranking_input
       = Inr [m1\<lparr>embedding := Some [3, 1, 1, 1], relevance_score := Some (92 / 25)\<rparr>,
              m1\<lparr>relevance_score := Some (49 / 50)\<rparr>,
              m2\<lparr>relevance_score := Some (9 / 50)\<rparr>,
              m2\<lparr>embedding := None, relevance_score := Some 0\<rparr>,
              m2\<lparr>embedding := Some [], relevance_score := Some 0\<rparr>]
   \<and> filter (\<lambda>m. relevance_score m = Some 0)
        (semantic_ranking (floats services_down)
           (generate_memory_embedding services_down ''beach'') ranking_input)
       = map (\<lambda>m. m\<lparr>relevance_score :=
                      Some (spec_relevance (floats services_down)
                              (generate_memory_embedding services_down ''beach'') m)\<rparr>)
           (filter (\<lambda>m. spec_relevance (floats services_down)
                           (generate_memory_embedding services_down ''beach'') m = 0)
              ranking_input)"
proof -
  have f: "ranking_input \<noteq> []" by (simp add: ranking_input_def)
  have g: "\<not> list_ex (bad ''embedding'') ranking_input"
    by (simp add: ranking_input_def bad_def m1_def m2_def)
  have v: "semantic_ranking (floats services_down)
             (generate_memory_embedding services_down ''beach'') ranking_input
       = [m1\<lparr>embedding := Some [3, 1, 1, 1], relevance_score := Some (92 / 25)\<rparr>,
          m1\<lparr>relevance_score := Some (49 / 50)\<rparr>,
          m2\<lparr>relevance_score := Some (9 / 50)\<rparr>,
          m2\<lparr>embedding := None, relevance_score := Some 0\<rparr>,
          m2\<lparr>embedding := Some [], relevance_score := Some 0\<rparr>]"
    by code_simp
  from f g v semantic_ranking_scores_and_order [OF f, of services_down "''beach''" 0]
  show ?thesis by simp
qed

section \<open>Recall: final ranking and fallbacks\<close>

lemma memory_map_snoc: "memory_map (ms @ [m]) = (memory_map ms)(mem_id m \<mapsto> m)"
  by (simp add: memory_map_def)

lemma memory_map_find: "memory_map ms k = List.find (\<lambda>m. mem_id m = k) (rev ms)"
proof (induction ms rule: rev_induct)
  case Nil
  then show ?case by (simp add: memory_map_def)
next
  case (snoc m ms)
  then show ?case by (auto simp: memory_map_snoc)
qed

lemma memory_map_dom: "memory_map ms k \<noteq> None \<longleftrightarrow> k \<in> mem_id ` set ms"
  by (auto simp: memory_map_find find_None_iff)

lemma reorder_spec:
  "reorder ranked_ids ms
     = map (\<lambda>i. the (List.find (\<lambda>m. mem_id m = Some i) (rev ms)))
         (filter (\<lambda>i. Some i \<in> mem_id ` set ms) ranked_ids)
       @ filter (\<lambda>m. mem_id m \<notin> Some ` set ranked_ids) ms"
  by (simp add: reorder_def Let_def memory_map_find [symmetric] memory_map_dom del: not_None_eq)

lemma keyword_search_Nil: "keyword_search query [] = []"
  by (simp add: keyword_search_def sorted_reverse_def)

lemma recall_body_Nil: "recall_body srv query [] = Inr []"
proof -
  have fb: "filter_by_params sp [] = Inr []" for sp
    by (simp add: filter_by_params_def filter_emotions_def filter_people_def
          filter_locations_def)
  have bf: "basic_filtering query [] = Inr []"
    by (simp add: basic_filtering_def Let_def split: option.splits)
  have fs: "filter_stage srv query [] = Inr []"
    by (simp add: filter_stage_def fb bf split: sum.splits)
  show ?thesis
    by (simp add: recall_body_def Let_def fs semantic_ranking_call_def semantic_ranking_def
          final_ranking_def keyword_search_call_def keyword_search_Nil)
qed

lemma recall_memories_handler:
  "recall_memories srv query memories =
     (case recall_body srv query memories of
        Inr result \<Rightarrow> Inr result
      | Inl e \<Rightarrow> keyword_search_call query memories)"
  by (cases "memories = []") (simp_all add: recall_memories_def recall_body_Nil)

lemma recall_body_stages:
  assumes "filter_stage srv query memories = Inr filtered"
    and "semantic_ranking_call (floats srv) (generate_memory_embedding srv query) filtered
           = Inr ranked"
  shows "recall_body srv query memories =
     (case final_ranking srv query ranked of
        Some result \<Rightarrow> Inr result
      | None \<Rightarrow> (if ranked \<noteq> [] then Inr ranked else keyword_search_call query memories))"
  using assms by (simp add: recall_body_def Let_def)


text \<open>
  Claim C5. Let the extraction stage leave the set \<open>filtered\<close>, let the scoring block
  turn it into the embedding-ranked list \<open>ranked\<close>, non-empty, and let the final ranking
  call, which is given the first 20 memories of \<open>ranked\<close> (fewer when there are fewer),
  answer with \<open>ranked_ids\<close>. Then recall returns, for each id of \<open>ranked_ids\<close> in the
  returned order that some memory of \<open>ranked\<close> carries, the memory the candidate map holds
  for it (the last one with that id), ids that no memory carries being dropped; followed by
  the memories of \<open>ranked\<close> whose id is not in \<open>ranked_ids\<close>, in their order in
  \<open>ranked\<close>.
\<close>

theorem final_ranking_reorders:
  assumes "filter_stage srv query memories = Inr filtered"
    and "semantic_ranking_call (floats srv) (generate_memory_embedding srv query) filtered
           = Inr ranked"
    and "ranked \<noteq> []"
    and "supplied = map candidate_of (take 20 ranked)"
    and "chat_final_ranking srv query supplied = Inr ranked_ids"
  shows "recall_memories srv query memories
       = Inr (map (\<lambda>i. the (List.find (\<lambda>m. mem_id m = Some i) (rev ranked)))
                (filter (\<lambda>i. Some i \<in> mem_id ` set ranked) ranked_ids)
              @ filter (\<lambda>m. mem_id m \<notin> Some ` set ranked_ids) ranked)
     \<and> length supplied \<le> 20
     \<and> supplied = map candidate_of (take (length supplied) ranked)"
proof -
  have "final_ranking srv query ranked = Some (reorder ranked_ids ranked)"
    using assms(3,4,5) by (simp add: final_ranking_def)
  then have "recall_body srv query memories = Inr (reorder ranked_ids ranked)"
    by (simp add: recall_body_stages [OF assms(1,2)])
  then have "recall_memories srv query memories = Inr (reorder ranked_ids ranked)"
    by (simp add: recall_memories_handler)
  moreover have "length supplied \<le> 20" by (simp add: assms(4))
  moreover have "supplied = map candidate_of (take (length supplied) ranked)"
    by (simp add: assms(4) min_def)
  ultimately show ?thesis by (simp add: reorder_spec)
qed

theorem final_ranking_reorders_witness:
  "filter_stage services_ranking ''first second'' five_memories = Inr five_memories
   \<and> semantic_ranking_call (floats services_ranking)
        (generate_memory_embedding services_ranking ''first second'') five_memories
       = Inr (map (\<lambda>m. m\<lparr>relevance_score := Some (- (3 / 25))\<rparr>) five_memories)
   \<and> chat_final_ranking services_ranking ''first second''
        (map candidate_of (take 20
           (map (\<lambda>m. m\<lparr>relevance_score := Some (- (3 / 25))\<rparr>) five_memories))) = Inr [9, 4, 4]
   \<and> map mem_id (projr (recall_memories services_ranking ''first second'' five_memories))
       = [Some 9, Some 4, Some 4, Some 1, None]
   \<and> map mem_text (projr (recall_memories services_ranking ''first second'' five_memories))
       = [Some ''second'', Some ''dup'', Some ''dup'', Some ''first'', Some ''first'']"
proof -
  define ranked where
    "ranked = map (\<lambda>m. m\<lparr>relevance_score := Some (- (3 / 25))\<rparr>) five_memories"
  have fs: "filter_stage services_ranking ''first second'' five_memories = Inr five_memories"
    by code_simp
  have sr: "semantic_ranking_call (floats services_ranking)
              (generate_memory_embedding services_ranking ''first second'') five_memories
            = Inr ranked"
    unfolding ranked_def by code_simp
  have ne: "ranked \<noteq> []" by (simp add: ranked_def five_memories_def)
  have call: "chat_final_ranking services_ranking ''first second''
                (map candidate_of (take 20 ranked)) = Inr [9, 4, 4]"
    by (simp add: services_ranking_def)
  have "recall_memories services_ranking ''first second'' five_memories
       = Inr (map (\<lambda>i. the (List.find (\<lambda>m. mem_id m = Some i) (rev ranked)))
                (filter (\<lambda>i. Some i \<in> mem_id ` set ranked) [9, 4, 4])
              @ filter (\<lambda>m. mem_id m \<notin> Some ` set [9, 4, 4]) ranked)"
    using final_ranking_reorders [OF fs sr ne refl call] by blast
  then have res: "recall_memories services_ranking ''first second'' five_memories
       = Inr (map (\<lambda>m. m\<lparr>relevance_score := Some (- (3 / 25))\<rparr>)
               [m2\<lparr>mem_id := Some 9\<rparr>, m2\<lparr>mem_text := Some ''dup''\<rparr>,
                m2\<lparr>mem_text := Some ''dup''\<rparr>, m1, m1\<lparr>mem_id := None\<rparr>])"
    by (simp add: ranked_def five_memories_def m1_def m2_def)
  show ?thesis
    using fs sr call unfolding ranked_def res by (simp add: m1_def m2_def)
qed





section \<open>The fallback location\<close>

lemma split_on_aux_step:
  "sep \<noteq> [] \<Longrightarrow>
     split_on_aux sep acc s =
       (case after_first sep s of
          None \<Rightarrow> [acc @ s]
        | Some rest \<Rightarrow> (acc @ before_first sep s) # split_on_aux sep [] rest)"
proof (induction s arbitrary: acc)
  case Nil
  then show ?case by simp
next
  case (Cons c cs)
  show ?case
  proof (cases "prefix sep (c # cs)")
    case True
    with Cons.prems show ?thesis by simp
  next
    case False
    with Cons.prems Cons.IH[of "acc @ [c]"] show ?thesis
      by (simp split: option.splits)
  qed
qed

lemma split_on_aux_nonempty: "split_on_aux sep acc s \<noteq> []"
  by (induction sep acc s rule: split_on_aux.induct) auto

lemma before_first_no_match: "after_first sep s = None \<Longrightarrow> before_first sep s = s"
  by (induction s) (auto split: if_splits)

lemma hd_split_on_aux: "sep \<noteq> [] \<Longrightarrow> hd (split_on_aux sep [] s) = before_first sep s"
  by (simp add: split_on_aux_step before_first_no_match split: option.splits)

lemma hd_split_on: "sep \<noteq> [] \<Longrightarrow> hd (split_on sep s) = before_first sep s"
  by (simp add: split_on_def hd_split_on_aux)

lemma length_split_on:
  "sep \<noteq> [] \<Longrightarrow> 1 < length (split_on sep s) \<longleftrightarrow> after_first sep s \<noteq> None"
  using split_on_aux_nonempty[of sep "[]"]
  by (auto simp: split_on_def split_on_aux_step[of sep "[]" s] split: option.splits)

lemma second_split_on:
  "sep \<noteq> [] \<Longrightarrow> after_first sep s = Some rest \<Longrightarrow> split_on sep s ! 1 = before_first sep rest"
proof -
  assume sep: "sep \<noteq> []" and a: "after_first sep s = Some rest"
  have "split_on sep s = before_first sep s # split_on_aux sep [] rest"
    using sep a by (simp add: split_on_def split_on_aux_step[of sep "[]" s])
  then have "split_on sep s ! 1 = hd (split_on_aux sep [] rest)"
    using split_on_aux_nonempty[of sep "[]" rest] by (simp add: hd_conv_nth)
  with sep show ?thesis by (simp add: hd_split_on_aux)
qed

lemma before_first_single: "before_first [c] s = takeWhile (\<lambda>x. x \<noteq> c) s"
  by (induction s) auto

lemma takeWhile_twice: "takeWhile P (takeWhile Q xs) = takeWhile (\<lambda>x. Q x \<and> P x) xs"
  by (induction xs) auto

lemma after_first_sublist: "after_first sep s \<noteq> None \<longleftrightarrow> sublist sep s"
proof (induction s)
  case Nil
  then show ?case by simp
next
  case (Cons c cs)
  then show ?case by (auto simp: sublist_Cons_right)
qed

lemma sublist_padded: "sublist sep s \<Longrightarrow> sublist sep (p @ s @ q)"
  by (auto simp: sublist_def) (metis append.assoc)
lemma location_step:
  "location_loop txt (keyword # rest) =
     (if sublist ('' '' @ keyword @ '' '') txt \<and> length (location_candidate keyword txt) < 30
      then location_candidate keyword txt
      else location_loop txt rest)"
proof -
  define sep where "sep = '' '' @ keyword @ '' ''"
  have sep: "sep \<noteq> []" by (simp add: sep_def)
  have loop: "location_loop txt (keyword # rest) =
     (if sublist sep ('' '' @ txt @ '' '')
      then (if length (split_on sep txt) > 1
            then (if length (hd (split_on '','' (hd (split_on ''.'' (split_on sep txt ! 1))))) < 30
                  then hd (split_on '','' (hd (split_on ''.'' (split_on sep txt ! 1))))
                  else location_loop txt rest)
            else location_loop txt rest)
      else location_loop txt rest)"
    by (simp add: sep_def Let_def)
  have cand_def: "location_candidate keyword txt =
     (case after_first sep txt of
        None \<Rightarrow> []
      | Some r \<Rightarrow> takeWhile (\<lambda>c. c \<noteq> CHR ''.'' \<and> c \<noteq> CHR '','') (before_first sep r))"
    unfolding location_candidate_def sep_def ..
  show ?thesis
  proof (cases "after_first sep txt")
    case None
    then have absent: "\<not> sublist sep txt"
      using after_first_sublist [of sep "txt"] by simp
    have "\<not> 1 < length (split_on sep txt)"
      using None length_split_on [OF sep, of "txt"] by simp
    with absent show ?thesis
      unfolding loop by (simp add: sep_def)
  next
    case (Some r)
    then have present: "sublist sep txt"
      using after_first_sublist [of sep "txt"] by simp
    then have pad: "sublist sep ('' '' @ txt @ '' '')"
      by (rule sublist_padded)
    have len: "1 < length (split_on sep txt)"
      using Some length_split_on [OF sep, of "txt"] by simp
    have second: "split_on sep txt ! 1 = before_first sep r"
      using sep Some by (rule second_split_on)
    have cand: "hd (split_on '','' (hd (split_on ''.'' (split_on sep txt ! 1))))
                  = location_candidate keyword txt"
      unfolding second cand_def
      by (simp add: hd_split_on before_first_single takeWhile_twice Some)
    from present have present': "sublist ('' '' @ keyword @ '' '') txt"
      by (simp add: sep_def)
    show ?thesis
      unfolding loop cand using pad len present' by simp
  qed
qed

lemma location_loop_find:
  "location_loop txt kws =
     (case List.find (\<lambda>keyword. sublist ('' '' @ keyword @ '' '') txt
                                \<and> length (location_candidate keyword txt) < 30) kws of
        None \<Rightarrow> ''Unknown''
      | Some keyword \<Rightarrow> location_candidate keyword txt)"
proof (induction kws)
  case Nil
  then show ?case by simp
next
  case (Cons keyword rest)
  show ?case
    unfolding location_step by (simp add: Cons.IH)
qed

text \<open>
  Claim C8, as amended. For every input text the fallback location extraction tries the
  literal substrings \<open>" at "\<close>, \<open>" in "\<close>, \<open>" near "\<close>, \<open>" by "\<close> in that priority
  order. For a keyword that occurs in the text the candidate is the text following its first
  occurrence, up to the next occurrence of the same substring, full stop or comma, whichever
  comes first. The location is the candidate of the first keyword that occurs and whose
  candidate is under 30 characters; when there is no such keyword it stays \<open>Unknown\<close>.
\<close>

theorem fallback_location_first_short_candidate:
  "fallback_location txt =
     (case List.find (\<lambda>keyword. sublist ('' '' @ keyword @ '' '') txt
                                \<and> length (location_candidate keyword txt) < 30)
             [''at'', ''in'', ''near'', ''by''] of
        None \<Rightarrow> ''Unknown''
      | Some keyword \<Rightarrow> location_candidate keyword txt)"
  by (simp only: fallback_location_def location_loop_find location_keywords_def)

text \<open>
  Claim C8 as stated takes the text after the first match up to the next full stop or comma
  and leaves \<open>Unknown\<close> when it is too long. The code stops the candidate at a second
  \<open>" at "\<close>, and after a candidate of 30 characters or more it goes on to the next
  keyword.
\<close>

theorem fallback_location_counterexample:
  "fallback_location ''I was at home at night.'' = ''home''
   \<and> spec_location ''I was at home at night.'' = ''home at night''
   \<and> fallback_location ''We met at the extraordinarily long named old place in Rome'' = ''Rome''
   \<and> spec_location ''We met at the extraordinarily long named old place in Rome'' = ''Unknown''"
  by code_simp

end

